theory Spec2Isabelle
  imports Main "HOL-Library.Word"
begin

unbundle bit_operations_syntax

section \<open>JavaScript values\<close>

text \<open>
  The session middleware handles untyped JavaScript values: a session is an open object
  (\<^verbatim>\<open>[key: string]: any\<close>) whose properties are enumerated with the array
  indices first, in ascending order, and the other keys after them, in insertion order.
  An object is therefore an association list, in enumeration order.  Numbers are the
  integers of 54 bits, read as signed (the safe integers, which print as their decimal
  digits; fractions, NaN and larger numbers are outside the model).  \<open>JDate ms\<close> is an
  instant in milliseconds since the epoch: a \<^verbatim>\<open>Date\<close>, or the ISO-8601 string a
  \<^verbatim>\<open>Date\<close> turns into when the storage codec serialises it, which
  \<^verbatim>\<open>dayjs\<close> reads back as the same instant.
\<close>

type_synonym safe_int = "54 word"

datatype jsvalue =
    JUndefined
  | JNull
  | JBool bool
  | JNum safe_int
  | JStr string
  | JDate int
  | JArr "jsvalue list"
  | JObj "(string \<times> jsvalue) list"

type_synonym jsobject = "(string \<times> jsvalue) list"

text \<open>\<^verbatim>\<open>!!v\<close>\<close>

fun truthy :: "jsvalue \<Rightarrow> bool" where
  "truthy JUndefined = False"
| "truthy JNull = False"
| "truthy (JBool b) = b"
| "truthy (JNum n) = (n \<noteq> 0)"
| "truthy (JStr s) = (s \<noteq> [])"
| "truthy (JDate ms) = True"
| "truthy (JArr vs) = True"
| "truthy (JObj kvs) = True"

text \<open>\<^verbatim>\<open>obj[k]\<close>: \<^verbatim>\<open>undefined\<close> for a missing property.\<close>

definition obj_get :: "jsobject \<Rightarrow> string \<Rightarrow> jsvalue" where
  "obj_get obj k = (case map_of obj k of None \<Rightarrow> JUndefined | Some v \<Rightarrow> v)"

text \<open>\<^verbatim>\<open>k in obj\<close>\<close>

definition obj_has :: "jsobject \<Rightarrow> string \<Rightarrow> bool" where
  "obj_has obj k = (map_of obj k \<noteq> None)"

text \<open>
  An array index is a key that is the decimal form, without leading zeros, of a number
  below \<open>2^32 - 1\<close>.
\<close>

definition digit_of :: "char \<Rightarrow> nat option" where
  "digit_of c = (let n = of_char c :: nat in if 48 \<le> n \<and> n \<le> 57 then Some (n - 48) else None)"

fun digits_value :: "nat \<Rightarrow> string \<Rightarrow> nat option" where
  "digits_value acc [] = Some acc"
| "digits_value acc (c # cs) =
     (case digit_of c of None \<Rightarrow> None | Some d \<Rightarrow> digits_value (acc * 10 + d) cs)"

definition array_index :: "string \<Rightarrow> nat option" where
  "array_index k =
     (case k of
        [] \<Rightarrow> None
      | c # cs \<Rightarrow>
          if c = CHR ''0'' \<and> cs \<noteq> [] then None
          else (case digits_value 0 k of
                  None \<Rightarrow> None
                | Some n \<Rightarrow> if n < 4294967295 then Some n else None))"

text \<open>
  \<^verbatim>\<open>obj[k] = v\<close>: an existing property keeps its place in the enumeration order;
  a new array index goes before the first key that is no array index or a greater one;
  any other new key goes last.
\<close>

fun obj_replace :: "string \<Rightarrow> jsvalue \<Rightarrow> jsobject \<Rightarrow> jsobject" where
  "obj_replace k v [] = []"
| "obj_replace k v (p # ps) = (if fst p = k then (k, v) # ps else p # obj_replace k v ps)"

fun obj_insert_index :: "nat \<Rightarrow> string \<Rightarrow> jsvalue \<Rightarrow> jsobject \<Rightarrow> jsobject" where
  "obj_insert_index i k v [] = [(k, v)]"
| "obj_insert_index i k v (p # ps) =
     (case array_index (fst p) of
        None \<Rightarrow> (k, v) # p # ps
      | Some j \<Rightarrow> if j < i then p # obj_insert_index i k v ps else (k, v) # p # ps)"

definition obj_set :: "string \<Rightarrow> jsvalue \<Rightarrow> jsobject \<Rightarrow> jsobject" where
  "obj_set k v obj =
     (if obj_has obj k then obj_replace k v obj
      else (case array_index k of
              None \<Rightarrow> obj @ [(k, v)]
            | Some i \<Rightarrow> obj_insert_index i k v obj))"

text \<open>\<^verbatim>\<open>delete obj[k]\<close>\<close>

definition obj_delete :: "string \<Rightarrow> jsobject \<Rightarrow> jsobject" where
  "obj_delete k obj = filter (\<lambda>p. fst p \<noteq> k) obj"

section \<open>JSON.stringify\<close>

definition hex_digit :: "nat \<Rightarrow> char" where
  "hex_digit n = ''0123456789abcdef'' ! (n mod 16)"

definition dec_digit :: "nat \<Rightarrow> char" where
  "dec_digit n = ''0123456789'' ! (n mod 10)"

text \<open>The last \<open>k\<close> decimal digits of \<open>n\<close>, zero padded.\<close>

fun pad_dec :: "nat \<Rightarrow> nat \<Rightarrow> string" where
  "pad_dec 0 n = []"
| "pad_dec (Suc k) n = pad_dec k (n div 10) @ [dec_digit n]"

function dec_nat :: "nat \<Rightarrow> string" where
  "dec_nat n = (if n < 10 then [dec_digit n] else dec_nat (n div 10) @ [dec_digit n])"
  by pat_completeness auto
termination
  by (relation "measure id") auto

declare dec_nat.simps [simp del]

definition dec_int :: "int \<Rightarrow> string" where
  "dec_int i = (if i < 0 then CHR ''-'' # dec_nat (nat (- i)) else dec_nat (nat i))"

text \<open>The quoting of a string: the two-character escapes, \<^verbatim>\<open>\u00xx\<close> for the other
  control characters, everything else as it is.\<close>

definition quote_char :: "char \<Rightarrow> string" where
  "quote_char c =
     (let n = of_char c :: nat in
      if c = CHR 0x22 then [CHR 0x5C, CHR 0x22]
      else if c = CHR 0x5C then [CHR 0x5C, CHR 0x5C]
      else if n = 8 then [CHR 0x5C, CHR ''b'']
      else if n = 12 then [CHR 0x5C, CHR ''f'']
      else if n = 10 then [CHR 0x5C, CHR ''n'']
      else if n = 13 then [CHR 0x5C, CHR ''r'']
      else if n = 9 then [CHR 0x5C, CHR ''t'']
      else if n < 32 then [CHR 0x5C, CHR ''u'', CHR ''0'', CHR ''0'', hex_digit (n div 16), hex_digit n]
      else [c])"

definition quote :: "string \<Rightarrow> string" where
  "quote s = [CHR 0x22] @ concat (map quote_char s) @ [CHR 0x22]"

definition join :: "string \<Rightarrow> string list \<Rightarrow> string" where
  "join sep xs = (case xs of [] \<Rightarrow> [] | x # rest \<Rightarrow> x @ concat (map (\<lambda>y. sep @ y) rest))"

text \<open>
  \<^verbatim>\<open>Date.prototype.toISOString\<close>: the proleptic Gregorian date of a day number
  (days since 1970-01-01), then \<^verbatim>\<open>YYYY-MM-DDTHH:mm:ss.sssZ\<close>, with a sign and six
  digits for a year outside 0..9999.
\<close>

definition civil_month :: "int \<Rightarrow> int" where
  "civil_month mp = (if mp < 10 then mp + 3 else mp - 9)"

definition civil_of_month :: "int \<Rightarrow> int \<Rightarrow> int \<Rightarrow> int \<times> nat \<times> nat" where
  "civil_of_month y doy mp =
     (y + (if civil_month mp \<le> 2 then 1 else 0),
      nat (civil_month mp),
      nat (doy - (153 * mp + 2) div 5 + 1))"

definition civil_of_year :: "int \<Rightarrow> int \<Rightarrow> int \<Rightarrow> int \<times> nat \<times> nat" where
  "civil_of_year era doe yoe =
     civil_of_month (yoe + era * 400)
       (doe - (365 * yoe + yoe div 4 - yoe div 100))
       ((5 * (doe - (365 * yoe + yoe div 4 - yoe div 100)) + 2) div 153)"

definition civil_of_era :: "int \<Rightarrow> int \<Rightarrow> int \<times> nat \<times> nat" where
  "civil_of_era era doe =
     civil_of_year era doe ((doe - doe div 1460 + doe div 36524 - doe div 146096) div 365)"

definition civil_from_days :: "int \<Rightarrow> int \<times> nat \<times> nat" where
  "civil_from_days days =
     civil_of_era ((days + 719468) div 146097)
       (days + 719468 - (days + 719468) div 146097 * 146097)"

definition iso_year :: "int \<Rightarrow> string" where
  "iso_year y =
     (if 0 \<le> y \<and> y \<le> 9999 then pad_dec 4 (nat y)
      else (if y < 0 then CHR ''-'' else CHR ''+'') # pad_dec 6 (nat \<bar>y\<bar>))"

definition iso_date :: "int \<Rightarrow> string" where
  "iso_date days =
     (case civil_from_days days of
        (y, m, d) \<Rightarrow> iso_year y @ ''-'' @ pad_dec 2 m @ ''-'' @ pad_dec 2 d)"

definition iso_time :: "nat \<Rightarrow> string" where
  "iso_time r =
     pad_dec 2 (r div 3600000) @ '':'' @ pad_dec 2 (r div 60000 mod 60) @ '':''
       @ pad_dec 2 (r div 1000 mod 60) @ ''.'' @ pad_dec 3 (r mod 1000)"

definition toISOString :: "int \<Rightarrow> string" where
  "toISOString ms =
     iso_date (ms div 86400000) @ ''T'' @ iso_time (nat (ms mod 86400000)) @ ''Z''"

text \<open>A \<^verbatim>\<open>Date\<close> holds at most 8.64e15 ms on either side of the epoch; beyond, it is
  invalid and its JSON is \<^verbatim>\<open>null\<close>.\<close>

definition valid_time :: "int \<Rightarrow> bool" where
  "valid_time ms = (\<bar>ms\<bar> \<le> 8640000000000000)"

text \<open>
  \<^verbatim>\<open>JSON.stringify(v)\<close>.  The result is \<^verbatim>\<open>undefined\<close> (\<open>None\<close>) for
  \<^verbatim>\<open>undefined\<close>; an object drops the properties whose value is \<^verbatim>\<open>undefined\<close>,
  an array writes \<^verbatim>\<open>null\<close> for them.  Properties are written in enumeration order.
\<close>

fun JSON_stringify :: "jsvalue \<Rightarrow> string option"
  and stringify_elems :: "jsvalue list \<Rightarrow> string list"
  and stringify_props :: "(string \<times> jsvalue) list \<Rightarrow> string list" where
  "JSON_stringify JUndefined = None"
| "JSON_stringify JNull = Some ''null''"
| "JSON_stringify (JBool b) = Some (if b then ''true'' else ''false'')"
| "JSON_stringify (JNum n) = Some (dec_int (sint n))"
| "JSON_stringify (JStr s) = Some (quote s)"
| "JSON_stringify (JDate ms) = Some (if valid_time ms then quote (toISOString ms) else ''null'')"
| "JSON_stringify (JArr vs) = Some (''['' @ join '','' (stringify_elems vs) @ '']'')"
| "JSON_stringify (JObj kvs) = Some (''{'' @ join '','' (stringify_props kvs) @ ''}'')"
| "stringify_elems [] = []"
| "stringify_elems (v # vs) =
     (case JSON_stringify v of None \<Rightarrow> ''null'' | Some s \<Rightarrow> s) # stringify_elems vs"
| "stringify_props [] = []"
| "stringify_props ((k, v) # kvs) =
     (case JSON_stringify v of
        None \<Rightarrow> stringify_props kvs
      | Some s \<Rightarrow> (quote k @ '':'' @ s) # stringify_props kvs)"

definition stringify_object :: "jsobject \<Rightarrow> string" where
  "stringify_object kvs = ''{'' @ join '','' (stringify_props kvs) @ ''}''"

section \<open>SHA-1\<close>

text \<open>
  \<^verbatim>\<open>crypto.createHash('sha1').update(str, 'utf8').digest('hex')\<close>: the string is
  encoded in UTF-8 (a character below 128 is one byte, one of 128..255 is two), padded
  to whole 512-bit blocks, and each block goes through the 80 rounds of SHA-1.
\<close>

type_synonym u32 = "32 word"

definition utf8 :: "string \<Rightarrow> int list" where
  "utf8 s = concat (map (\<lambda>c. let n = of_char c :: int in
                               if n < 128 then [n] else [192 + n div 64, 128 + n mod 64]) s)"

text \<open>Big-endian bytes of \<open>n\<close>, \<open>k\<close> of them.\<close>

fun be_bytes :: "nat \<Rightarrow> int \<Rightarrow> int list" where
  "be_bytes 0 n = []"
| "be_bytes (Suc k) n = be_bytes k (n div 256) @ [n mod 256]"

definition sha1_pad :: "int list \<Rightarrow> int list" where
  "sha1_pad bs =
     bs @ [128] @ replicate (nat ((119 - int (length bs) mod 64) mod 64)) 0
        @ be_bytes 8 (8 * int (length bs))"

fun be_words :: "int list \<Rightarrow> u32 list" where
  "be_words (a # b # c # d # rest) =
     word_of_int (((a * 256 + b) * 256 + c) * 256 + d) # be_words rest"
| "be_words _ = []"

fun chunks16 :: "u32 list \<Rightarrow> u32 list list" where
  "chunks16 (w0 # w1 # w2 # w3 # w4 # w5 # w6 # w7 # w8 # w9 # w10 # w11 # w12 # w13
               # w14 # w15 # rest) =
     [w0, w1, w2, w3, w4, w5, w6, w7, w8, w9, w10, w11, w12, w13, w14, w15] # chunks16 rest"
| "chunks16 _ = []"

definition rotl :: "nat \<Rightarrow> u32 \<Rightarrow> u32" where
  "rotl n w = push_bit n w OR drop_bit (32 - n) w"

text \<open>The message schedule: \<open>W t = rotl 1 (W (t-3) XOR W (t-8) XOR W (t-14) XOR W (t-16))\<close>;
  the argument is the window of the last 16 words, oldest first.\<close>

fun schedule :: "nat \<Rightarrow> u32 list \<Rightarrow> u32 list" where
  "schedule (Suc n) (w0 # w1 # w2 # w3 # w4 # w5 # w6 # w7 # w8 # w9 # w10 # w11 # w12 # w13
               # w14 # w15 # rest) =
     w0 # schedule n (w1 # w2 # w3 # w4 # w5 # w6 # w7 # w8 # w9 # w10 # w11 # w12 # w13
               # w14 # w15 # [rotl 1 (w13 XOR w8 XOR w2 XOR w0)])"
| "schedule _ ws = ws"

definition sha1_f :: "nat \<Rightarrow> u32 \<Rightarrow> u32 \<Rightarrow> u32 \<Rightarrow> u32" where
  "sha1_f t b c d =
     (if t < 20 then (b AND c) OR (NOT b AND d)
      else if t < 40 then b XOR c XOR d
      else if t < 60 then (b AND c) OR (b AND d) OR (c AND d)
      else b XOR c XOR d)"

definition sha1_k :: "nat \<Rightarrow> u32" where
  "sha1_k t =
     (if t < 20 then 0x5A827999
      else if t < 40 then 0x6ED9EBA1
      else if t < 60 then 0x8F1BBCDC
      else 0xCA62C1D6)"

type_synonym sha1_state = "u32 \<times> u32 \<times> u32 \<times> u32 \<times> u32"

fun sha1_rounds :: "nat \<Rightarrow> u32 list \<Rightarrow> sha1_state \<Rightarrow> sha1_state" where
  "sha1_rounds t [] st = st"
| "sha1_rounds t (w # ws) (a, b, c, d, e) =
     sha1_rounds (Suc t) ws
       (rotl 5 a + sha1_f t b c d + e + sha1_k t + w, a, rotl 30 b, c, d)"

definition sha1_block :: "sha1_state \<Rightarrow> u32 list \<Rightarrow> sha1_state" where
  "sha1_block st ws =
     (case st of (h0, h1, h2, h3, h4) \<Rightarrow>
        (case sha1_rounds 0 (schedule 64 ws) st of (a, b, c, d, e) \<Rightarrow>
           (h0 + a, h1 + b, h2 + c, h3 + d, h4 + e)))"

definition sha1_init :: sha1_state where
  "sha1_init = (0x67452301, 0xEFCDAB89, 0x98BADCFE, 0x10325476, 0xC3D2E1F0)"

fun hex_int :: "nat \<Rightarrow> int \<Rightarrow> string" where
  "hex_int 0 n = []"
| "hex_int (Suc k) n = hex_int k (n div 16) @ [hex_digit (nat (n mod 16))]"

definition sha1_hex :: "int list \<Rightarrow> string" where
  "sha1_hex bs =
     (case foldl sha1_block sha1_init (chunks16 (be_words (sha1_pad bs))) of
        (a, b, c, d, e) \<Rightarrow> concat (map (\<lambda>w. hex_int 8 (uint w)) [a, b, c, d, e]))"

section \<open>Configuration, cookies and the request state\<close>

datatype SameSiteOptions = Lax | Strict | SameSiteNone

text \<open>\<^verbatim>\<open>SessionOptions\<close>.  \<open>None\<close> is \<^verbatim>\<open>false\<close> in \<open>expiryInSeconds\<close> and
  \<open>domain\<close>; the expiry is a whole number of seconds.\<close>

record SessionOptions =
  expiryInSeconds :: "int option"
  idLength :: nat
  storePrefix :: string
  cookieSameSite :: SameSiteOptions
  cookieSecure :: bool
  cookieHttpOnly :: bool
  cookieName :: string
  resave :: bool
  saveUninitialized :: bool
  saveAsync :: bool
  domain :: "string option"
  rolling :: bool

text \<open>The options object handed to \<^verbatim>\<open>setCookie\<close>; \<open>None\<close> is \<^verbatim>\<open>undefined\<close>,
  \<open>c_expires\<close> is the time of the \<^verbatim>\<open>Date\<close> in ms.\<close>

record CookieOptions =
  c_expires :: "int option"
  c_secure :: bool
  c_httpOnly :: bool
  c_sameSite :: SameSiteOptions
  c_domain :: "string option"

text \<open>What a request does to the response and to the storage backend, in order.\<close>

datatype effect =
    SetCookie string jsvalue CookieOptions
  | DeleteCookie string
  | SetStorageSession jsvalue jsvalue
  | DropStorageSession string

datatype jserror = TypeError | SessionExpired

text \<open>A call either returns or throws; in both cases the state it leaves is kept.\<close>

datatype 'a outcome = Done 'a | Threw jserror 'a

fun state_of :: "'a outcome \<Rightarrow> 'a" where
  "state_of (Done x) = x"
| "state_of (Threw err x) = x"

text \<open>
  What is fixed during one request: the runtime configuration, the cookies of the request
  (\<^verbatim>\<open>parseCookies(event)\<close>), and the two sources the code reads without being given
  them: \<open>nanoid\<close> (the \<open>n\<close>-th reading, for a size) and the clock
  (\<^verbatim>\<open>new Date()\<close>, \<^verbatim>\<open>dayjs()\<close>: the \<open>n\<close>-th reading, in ms).  \<open>host_date\<close>
  is the instant the host reads from a string, an array or an object given to
  \<^verbatim>\<open>dayjs\<close> (the pattern of \<^verbatim>\<open>dayjs\<close> and \<^verbatim>\<open>Date.parse\<close>, in the time zone of
  the host), \<open>None\<close> when it reads none.
\<close>

record env =
  options :: SessionOptions
  cookies :: "string \<rightharpoonup> string"
  nanoid :: "nat \<Rightarrow> nat \<Rightarrow> string"
  clock :: "nat \<Rightarrow> int"
  host_date :: "jsvalue \<Rightarrow> int option"

text \<open>
  What changes: \<^verbatim>\<open>event.context.sessionId\<close> and \<^verbatim>\<open>event.context.session\<close>
  (\<open>JUndefined\<close> and \<open>None\<close> once deleted), the storage backend, the effects so far,
  and the number of readings taken from \<open>nanoid\<close> and the clock.
\<close>

record state =
  ctx_sessionId :: jsvalue
  ctx_session :: "jsobject option"
  storage :: "string \<rightharpoonup> jsvalue"
  effects :: "effect list"
  tick :: nat

text \<open>The variables of the handler's closure.\<close>

record scope =
  isInit :: bool
  isTouch :: bool
  isReNew :: bool
  preSessionId :: jsvalue
  preSessionHash :: string
  postSessionId :: jsvalue
  postSessionHash :: "string option"

section \<open>Storage adapter\<close>

text \<open>
  Modelled from the spec: the module \<^verbatim>\<open>./storage\<close> (\<^verbatim>\<open>getStorageSession\<close>,
  \<^verbatim>\<open>setStorageSession\<close>, \<^verbatim>\<open>dropStorageSession\<close>) is not among the sources.  The
  spec gives the adapter as a key-value contract, \<^verbatim>\<open>get(key)\<close>, \<^verbatim>\<open>set(key, value)\<close>,
  \<^verbatim>\<open>delete(key)\<close>, with keys namespaced as \<^verbatim>\<open>{storePrefix}:{sessionId}\<close>; a missing
  key reads as \<^verbatim>\<open>null\<close>.  The contract takes a string key: a write under an id that
  is not a string is recorded as an effect and leaves the table as it is.
\<close>

definition storage_key :: "env \<Rightarrow> string \<Rightarrow> string" where
  "storage_key e sid = storePrefix (options e) @ '':'' @ sid"

definition getStorageSession :: "env \<Rightarrow> string \<Rightarrow> state \<Rightarrow> jsvalue" where
  "getStorageSession e sid st =
     (case storage st (storage_key e sid) of None \<Rightarrow> JNull | Some v \<Rightarrow> v)"

definition session_value :: "jsobject option \<Rightarrow> jsvalue" where
  "session_value s = (case s of None \<Rightarrow> JUndefined | Some obj \<Rightarrow> JObj obj)"

definition setStorageSession :: "env \<Rightarrow> jsvalue \<Rightarrow> jsvalue \<Rightarrow> state \<Rightarrow> state" where
  "setStorageSession e sid v st =
     (case sid of
        JStr k \<Rightarrow> st\<lparr>storage := (storage st)(storage_key e k \<mapsto> v),
                     effects := effects st @ [SetStorageSession sid v]\<rparr>
      | _ \<Rightarrow> st\<lparr>effects := effects st @ [SetStorageSession sid v]\<rparr>)"

definition dropStorageSession :: "env \<Rightarrow> string \<Rightarrow> state \<Rightarrow> state" where
  "dropStorageSession e sid st =
     st\<lparr>storage := (storage st)(storage_key e sid := None),
        effects := effects st @ [DropStorageSession sid]\<rparr>"

section \<open>The session middleware\<close>

text \<open>\<^verbatim>\<open>safeSetCookie\<close>.  \<^verbatim>\<open>createdAt.getTime()\<close> is only evaluated for a finite
  expiry, and throws on a value that is not a \<^verbatim>\<open>Date\<close>;
  \<^verbatim>\<open>sessionOptions.domain || undefined\<close> is \<^verbatim>\<open>undefined\<close> for \<^verbatim>\<open>false\<close> and for
  the empty string.  When \<open>createdAt\<close> or the sum is beyond what a \<^verbatim>\<open>Date\<close> holds,
  the expiration is an invalid \<^verbatim>\<open>Date\<close>: \<^verbatim>\<open>setCookie\<close> throws and writes no
  cookie.\<close>

definition safeSetCookie :: "env \<Rightarrow> string \<Rightarrow> jsvalue \<Rightarrow> jsvalue \<Rightarrow> state \<Rightarrow> state outcome" where
  "safeSetCookie e name val createdAt st =
     (let sessionOptions = options e;
          emit = (\<lambda>expirationDate.
            Done (st\<lparr>effects := effects st @ [SetCookie name val
              \<lparr>c_expires = expirationDate,
               c_secure = cookieSecure sessionOptions,
               c_httpOnly = cookieHttpOnly sessionOptions,
               c_sameSite = cookieSameSite sessionOptions,
               c_domain = (case domain sessionOptions of
                             None \<Rightarrow> None
                           | Some d \<Rightarrow> if d = [] then None else Some d)\<rparr>]\<rparr>))
      in case expiryInSeconds sessionOptions of
           None \<Rightarrow> emit None
         | Some secs \<Rightarrow>
             (case createdAt of
                JDate ms \<Rightarrow>
                  if valid_time ms \<and> valid_time (ms + secs * 1000)
                  then emit (Some (ms + secs * 1000))
                  else Threw TypeError st
              | _ \<Rightarrow> Threw TypeError st))"

text \<open>\<^verbatim>\<open>dayjs(v)\<close> as an instant in ms, \<open>None\<close> for an invalid date:
  \<^verbatim>\<open>null\<close> is invalid, \<^verbatim>\<open>undefined\<close> is now (\<open>now\<close> is what the clock gives
  then), a \<^verbatim>\<open>Date\<close> is itself, and the rest goes through \<^verbatim>\<open>new Date(v)\<close>: a
  number is the instant, a boolean is 0 or 1, a string, an array or an object is what the
  host reads from it.\<close>

fun dayjs :: "env \<Rightarrow> int \<Rightarrow> jsvalue \<Rightarrow> int option" where
  "dayjs e now JNull = None"
| "dayjs e now JUndefined = (if valid_time now then Some now else None)"
| "dayjs e now (JDate ms) = (if valid_time ms then Some ms else None)"
| "dayjs e now (JNum n) = (if valid_time (sint n) then Some (sint n) else None)"
| "dayjs e now (JBool b) = Some (if b then 1 else 0)"
| "dayjs e now v =
     (case host_date e v of
        None \<Rightarrow> None
      | Some ms \<Rightarrow> if valid_time ms then Some ms else None)"

text \<open>\<^verbatim>\<open>a.diff(b, 'seconds')\<close>: the difference in ms over 1000, cut towards zero.\<close>

definition diff_seconds :: "int \<Rightarrow> int \<Rightarrow> int" where
  "diff_seconds a b = (let d = a - b in if d < 0 then - ((- d) div 1000) else d div 1000)"

text \<open>The elapsed seconds that \<^verbatim>\<open>checkSessionExpirationTime\<close> compares: \<open>None\<close> is
  NaN, which no comparison accepts.  Two readings of the clock are set aside, for
  \<^verbatim>\<open>dayjs()\<close> and for \<^verbatim>\<open>dayjs(session.createdAt)\<close>.\<close>

definition elapsed_seconds :: "env \<Rightarrow> state \<Rightarrow> jsobject \<Rightarrow> int option" where
  "elapsed_seconds e st session =
     (case dayjs e (clock e (Suc (tick st))) (obj_get session ''createdAt'') of
        None \<Rightarrow> None
      | Some c \<Rightarrow> Some (diff_seconds (clock e (tick st)) c))"

definition checkSessionExpirationTime :: "env \<Rightarrow> jsobject \<Rightarrow> int \<Rightarrow> state \<Rightarrow> state outcome" where
  "checkSessionExpirationTime e session sessionExpiryInSeconds st =
     (let st' = st\<lparr>tick := tick st + 2\<rparr> in
      case elapsed_seconds e st session of
        None \<Rightarrow> Done st'
      | Some secs \<Rightarrow>
          if secs > sessionExpiryInSeconds then Threw SessionExpired st' else Done st')"

definition getCurrentSessionId :: "env \<Rightarrow> string option" where
  "getCurrentSessionId e = cookies e (cookieName (options e))"

definition deleteSession :: "env \<Rightarrow> state \<Rightarrow> state" where
  "deleteSession e st =
     (let st1 = (case getCurrentSessionId e of
                   None \<Rightarrow> st
                 | Some currentSessionId \<Rightarrow>
                     if currentSessionId \<noteq> [] then dropStorageSession e currentSessionId st
                     else st)
      in st1\<lparr>effects := effects st1 @ [DeleteCookie (cookieName (options e))],
             ctx_sessionId := JUndefined,
             ctx_session := None\<rparr>)"

text \<open>\<^verbatim>\<open>createSession(event, initBody?)\<close>: without a body the session in the context
  is kept, and assigning to it throws when there is none.\<close>

definition createSession :: "env \<Rightarrow> jsobject option \<Rightarrow> state \<Rightarrow> state outcome" where
  "createSession e initBody st =
     (let now = clock e (tick st);
          st1 = (case initBody of
                   None \<Rightarrow> st\<lparr>tick := Suc (tick st)\<rparr>
                 | Some body \<Rightarrow> st\<lparr>tick := Suc (tick st), ctx_session := Some body\<rparr>);
          newId = JStr (nanoid e (tick st1) (idLength (options e)));
          st2 = st1\<lparr>tick := Suc (tick st1), ctx_sessionId := newId\<rparr>
      in case ctx_session st2 of
           None \<Rightarrow> Threw TypeError st2
         | Some s \<Rightarrow>
             Done (st2\<lparr>ctx_session :=
                     Some (obj_set ''createdAt'' (JDate now) (obj_set ''id'' newId s))\<rparr>))"

definition reNewSession :: "env \<Rightarrow> state \<Rightarrow> state outcome" where
  "reNewSession e st =
     (let body = (case ctx_session st of None \<Rightarrow> [] | Some s \<Rightarrow> s)
      in createSession e (Some body) (deleteSession e st))"

definition isSession :: "jsvalue \<Rightarrow> bool" where
  "isSession shape = (case shape of
                        JObj kvs \<Rightarrow> obj_has kvs ''id'' \<and> obj_has kvs ''createdAt''
                      | _ \<Rightarrow> False)"

definition getSession :: "env \<Rightarrow> state \<Rightarrow> jsobject option \<times> state" where
  "getSession e st =
     (case getCurrentSessionId e of
        None \<Rightarrow> (None, st)
      | Some existingSessionId \<Rightarrow>
          if existingSessionId = [] then (None, st)
          else
            (let shape = getStorageSession e existingSessionId st in
             if \<not> isSession shape then (None, st)
             else (case shape of
                     JObj session \<Rightarrow>
                       (case expiryInSeconds (options e) of
                          None \<Rightarrow> (Some session, st)
                        | Some sessionExpiryInSeconds \<Rightarrow>
                            (case checkSessionExpirationTime e session sessionExpiryInSeconds st of
                               Done st' \<Rightarrow> (Some session, st')
                             | Threw err st' \<Rightarrow> (None, deleteSession e st')))
                   | _ \<Rightarrow> (None, st))))"

definition hash :: "jsobject \<Rightarrow> string" where
  "hash session = (let str = stringify_object session in sha1_hex (utf8 str))"

text \<open>
  The event handler, up to the registration of the two callbacks: the session is resolved,
  the context is filled, and the id and the hash are remembered.
\<close>

definition startRequest :: "env \<Rightarrow> state \<Rightarrow> state \<times> scope" where
  "startRequest e st =
     (case getSession e st of
        (Some session, st1) \<Rightarrow>
          (st1\<lparr>ctx_sessionId := obj_get session ''id'', ctx_session := Some session\<rparr>,
           \<lparr>isInit = False, isTouch = False, isReNew = False,
            preSessionId = obj_get session ''id'', preSessionHash = hash session,
            postSessionId = JUndefined, postSessionHash = None\<rparr>)
      | (None, st1) \<Rightarrow>
          (st1\<lparr>ctx_sessionId := JStr [], ctx_session := Some []\<rparr>,
           \<lparr>isInit = True, isTouch = False, isReNew = False,
            preSessionId = JStr [], preSessionHash = hash [],
            postSessionId = JUndefined, postSessionHash = None\<rparr>))"

definition isDestory :: "state \<Rightarrow> bool" where
  "isDestory st = (\<not> truthy (ctx_sessionId st) \<and> ctx_session st = None)"

definition isModified :: "scope \<Rightarrow> bool" where
  "isModified sc =
     (preSessionId sc \<noteq> postSessionId sc \<or> Some (preSessionHash sc) \<noteq> postSessionHash sc)"

text \<open>
  What the code after the middleware can do with the session during the request:
  \<^verbatim>\<open>sessionFn.touch()\<close>, \<^verbatim>\<open>sessionFn.destroy()\<close>, \<^verbatim>\<open>sessionFn.regenerate()\<close>,
  \<^verbatim>\<open>session[k] = v\<close>, \<^verbatim>\<open>delete session[k]\<close> and
  \<^verbatim>\<open>event.context.session = obj\<close>.  A property access on a deleted session throws,
  which ends the handler.
\<close>

datatype handler_op =
    Touch
  | Destroy
  | Regenerate
  | SetKey string jsvalue
  | DeleteKey string
  | Assign jsobject

fun handler_step :: "env \<Rightarrow> handler_op \<Rightarrow> state \<times> scope \<Rightarrow> (state \<times> scope) outcome" where
  "handler_step e Touch (st, sc) = Done (st, sc\<lparr>isTouch := True\<rparr>)"
| "handler_step e Destroy (st, sc) = Done (deleteSession e st, sc)"
| "handler_step e Regenerate (st, sc) =
     (case reNewSession e st of
        Done st' \<Rightarrow> Done (st', sc\<lparr>isReNew := True\<rparr>)
      | Threw err st' \<Rightarrow> Threw err (st', sc))"
| "handler_step e (SetKey k v) (st, sc) =
     (case ctx_session st of
        None \<Rightarrow> Threw TypeError (st, sc)
      | Some s \<Rightarrow> Done (st\<lparr>ctx_session := Some (obj_set k v s)\<rparr>, sc))"
| "handler_step e (DeleteKey k) (st, sc) =
     (case ctx_session st of
        None \<Rightarrow> Threw TypeError (st, sc)
      | Some s \<Rightarrow> Done (st\<lparr>ctx_session := Some (obj_delete k s)\<rparr>, sc))"
| "handler_step e (Assign obj) (st, sc) = Done (st\<lparr>ctx_session := Some obj\<rparr>, sc)"

fun run_handler :: "env \<Rightarrow> handler_op list \<Rightarrow> state \<times> scope \<Rightarrow> (state \<times> scope) outcome" where
  "run_handler e [] x = Done x"
| "run_handler e (a # ops) x =
     (case handler_step e a x of
        Done x' \<Rightarrow> run_handler e ops x'
      | Threw err x' \<Rightarrow> Threw err x')"

text \<open>The callback given to \<^verbatim>\<open>onHeaders\<close>.\<close>

definition headers_callback :: "env \<Rightarrow> state \<times> scope \<Rightarrow> (state \<times> scope) outcome" where
  "headers_callback e x =
     (case x of (st, sc) \<Rightarrow>
        if isDestory st then Done (st, sc)
        else
          (let sc1 = sc\<lparr>postSessionId := ctx_sessionId st\<rparr> in
           case ctx_session st of
             None \<Rightarrow> Threw TypeError (st, sc1)
           | Some s \<Rightarrow>
               (let sc2 = sc1\<lparr>postSessionHash := Some (hash s)\<rparr> in
                if isInit sc2 then
                  (if isModified sc2 \<or> isTouch sc2 then
                     (case createSession e None st of
                        Threw err st1 \<Rightarrow> Threw err (st1, sc2)
                      | Done st1 \<Rightarrow>
                          (case safeSetCookie e (cookieName (options e)) (ctx_sessionId st1)
                                  (obj_get (case ctx_session st1 of None \<Rightarrow> [] | Some s1 \<Rightarrow> s1)
                                     ''createdAt'') st1 of
                             Threw err st2 \<Rightarrow> Threw err (st2, sc2)
                           | Done st2 \<Rightarrow> Done (st2, sc2)))
                   else Done (st, sc2))
                else if rolling (options e)
                        \<or> (expiryInSeconds (options e) \<noteq> None \<and> (isModified sc2 \<or> isTouch sc2))
                        \<or> (isReNew sc2 \<and> (isModified sc2 \<or> isTouch sc2)) then
                  (let now = clock e (tick st);
                       st1 = st\<lparr>tick := Suc (tick st),
                                ctx_session := Some (obj_set ''createdAt'' (JDate now) s)\<rparr>
                   in case safeSetCookie e (cookieName (options e)) (ctx_sessionId st1)
                             (obj_get (obj_set ''createdAt'' (JDate now) s) ''createdAt'') st1 of
                        Threw err st2 \<Rightarrow> Threw err (st2, sc2)
                      | Done st2 \<Rightarrow> Done (st2, sc2))
                else Done (st, sc2))))"

text \<open>The callback given to \<^verbatim>\<open>res.on('finish')\<close>.\<close>

definition finish_callback :: "env \<Rightarrow> state \<times> scope \<Rightarrow> state \<times> scope" where
  "finish_callback e x =
     (case x of (st, sc) \<Rightarrow>
        if isDestory st then (st, sc)
        else if isInit sc then
          (if isModified sc \<or> isTouch sc
           then (setStorageSession e (ctx_sessionId st) (session_value (ctx_session st)) st, sc)
           else (st, sc))
        else if isModified sc \<or> isTouch sc
          then (setStorageSession e (ctx_sessionId st) (session_value (ctx_session st)) st, sc)
          else (st, sc))"

text \<open>
  One request: the middleware, the handler, the headers going out, the response finished.
  Each stage starts from the state the stage before has left, also when that one threw.
\<close>

definition after_handler :: "env \<Rightarrow> handler_op list \<Rightarrow> state \<Rightarrow> state \<times> scope" where
  "after_handler e ops st = state_of (run_handler e ops (startRequest e st))"

definition after_headers :: "env \<Rightarrow> handler_op list \<Rightarrow> state \<Rightarrow> state \<times> scope" where
  "after_headers e ops st = state_of (headers_callback e (after_handler e ops st))"

definition run_request :: "env \<Rightarrow> handler_op list \<Rightarrow> state \<Rightarrow> state \<times> scope" where
  "run_request e ops st = finish_callback e (after_headers e ops st)"

text \<open>The request from some point of the handler on: the operations still to come, then
  the two callbacks.\<close>

definition rest_of_request :: "env \<Rightarrow> handler_op list \<Rightarrow> state \<times> scope \<Rightarrow> state \<times> scope" where
  "rest_of_request e ops x =
     finish_callback e (state_of (headers_callback e (state_of (run_handler e ops x))))"

text \<open>The state a request starts in: nothing in the context yet, nothing done yet.\<close>

definition request_start :: "(string \<rightharpoonup> jsvalue) \<Rightarrow> state" where
  "request_start store =
     \<lparr>ctx_sessionId = JUndefined, ctx_session = None, storage = store, effects = [], tick = 0\<rparr>"

fun is_cookie_write :: "effect \<Rightarrow> bool" where
  "is_cookie_write (SetCookie name v opts) = True"
| "is_cookie_write _ = False"

fun is_storage_write :: "effect \<Rightarrow> bool" where
  "is_storage_write (SetStorageSession sid v) = True"
| "is_storage_write _ = False"

definition cookie_writes :: "state \<Rightarrow> effect list" where
  "cookie_writes st = filter is_cookie_write (effects st)"

definition storage_writes :: "state \<Rightarrow> effect list" where
  "storage_writes st = filter is_storage_write (effects st)"

text \<open>The attributes \<open>safeSetCookie\<close> gives a cookie under a configuration, for a
  session created at \<open>createdAt\<close> (ms).\<close>

definition configured_cookie :: "env \<Rightarrow> int \<Rightarrow> CookieOptions" where
  "configured_cookie e createdAt =
     \<lparr>c_expires = map_option (\<lambda>secs. createdAt + secs * 1000) (expiryInSeconds (options e)),
      c_secure = cookieSecure (options e),
      c_httpOnly = cookieHttpOnly (options e),
      c_sameSite = cookieSameSite (options e),
      c_domain = (if domain (options e) = Some [] then None else domain (options e))\<rparr>"

text \<open>Whether the expiration of a cookie for a session created at \<open>createdAt\<close> is a
  valid \<^verbatim>\<open>Date\<close>; without expiry there is none to check.\<close>

definition expires_ok :: "env \<Rightarrow> int \<Rightarrow> bool" where
  "expires_ok e createdAt =
     (case expiryInSeconds (options e) of
        None \<Rightarrow> True
      | Some secs \<Rightarrow> valid_time createdAt \<and> valid_time (createdAt + secs * 1000))"

text \<open>Handlers that only read and write the payload; handlers that, once the session is
  destroyed, neither assign a new session object nor regenerate; handlers that do not
  destroy.\<close>

fun is_payload_op :: "handler_op \<Rightarrow> bool" where
  "is_payload_op (SetKey k v) = True"
| "is_payload_op (DeleteKey k) = True"
| "is_payload_op (Assign obj) = True"
| "is_payload_op _ = False"

definition payload_only :: "handler_op list \<Rightarrow> bool" where
  "payload_only ops = list_all is_payload_op ops"

fun is_revival :: "handler_op \<Rightarrow> bool" where
  "is_revival Regenerate = True"
| "is_revival (Assign obj) = True"
| "is_revival _ = False"

definition no_revival :: "handler_op list \<Rightarrow> bool" where
  "no_revival ops = list_all (\<lambda>a. \<not> is_revival a) ops"


section \<open>Example requests\<close>

text \<open>A configuration with the defaults of the module (and short ids), a request without
  a cookie, and a request whose cookie names a stored session.\<close>

definition example_options :: SessionOptions where
  "example_options =
     \<lparr>expiryInSeconds = Some 600, idLength = 4, storePrefix = ''sessions'',
      cookieSameSite = Lax, cookieSecure = True, cookieHttpOnly = True,
      cookieName = ''sessionId'', resave = False, saveUninitialized = False,
      saveAsync = False, domain = None, rolling = False\<rparr>"

definition example_nanoid :: "nat \<Rightarrow> nat \<Rightarrow> string" where
  "example_nanoid n k = replicate (Suc n) (CHR ''n'')"

definition example_env :: env where
  "example_env =
     \<lparr>options = example_options, cookies = Map.empty, nanoid = example_nanoid,
      clock = (\<lambda>n. 1700000000000 + int n), host_date = (\<lambda>v. None)\<rparr>"

definition example_session :: jsobject where
  "example_session =
     [(''id'', JStr ''abcd''), (''createdAt'', JDate 1699999999000), (''foo'', JStr ''bar'')]"

definition example_store :: "string \<rightharpoonup> jsvalue" where
  "example_store = [''sessions:abcd'' \<mapsto> JObj example_session]"

definition cookie_env :: env where
  "cookie_env = example_env\<lparr>cookies := [''sessionId'' \<mapsto> ''abcd'']\<rparr>"

text \<open>The same request 601 s, and exactly 600 s, after the stored session was created.\<close>

definition late_env :: env where
  "late_env = cookie_env\<lparr>clock := (\<lambda>n. 1700000600000)\<rparr>"

definition edge_env :: env where
  "edge_env = cookie_env\<lparr>clock := (\<lambda>n. 1700000599000)\<rparr>"

text \<open>The stored session again, under a configuration without expiry.\<close>

definition infinite_env :: env where
  "infinite_env = cookie_env\<lparr>options := example_options\<lparr>expiryInSeconds := None\<rparr>\<rparr>"

text \<open>The stored session 600.999 s after it was created.\<close>

definition second_env :: env where
  "second_env = cookie_env\<lparr>clock := (\<lambda>n. 1700000599999)\<rparr>"








section \<open>Deleting a session\<close>

lemma request_start_fields [simp]:
  "ctx_sessionId (request_start store) = JUndefined"
  "ctx_session (request_start store) = None"
  "storage (request_start store) = store"
  "effects (request_start store) = []"
  "tick (request_start store) = 0"
  by (simp_all add: request_start_def)

lemma deleteSession_ctx [simp]:
  "ctx_sessionId (deleteSession e st) = JUndefined"
  "ctx_session (deleteSession e st) = None"
  "tick (deleteSession e st) = tick st"
  by (simp_all add: deleteSession_def dropStorageSession_def split: option.split)

lemma deleteSession_effects:
  "effects (deleteSession e st) =
     effects st
     @ (case getCurrentSessionId e of
          None \<Rightarrow> []
        | Some sid \<Rightarrow> if sid = [] then [] else [DropStorageSession sid])
     @ [DeleteCookie (cookieName (options e))]"
  by (simp add: deleteSession_def dropStorageSession_def split: option.split)

lemma deleteSession_storage:
  "storage (deleteSession e st) =
     (case getCurrentSessionId e of
        None \<Rightarrow> storage st
      | Some sid \<Rightarrow> if sid = [] then storage st else (storage st)(storage_key e sid := None))"
  by (simp add: deleteSession_def dropStorageSession_def split: option.split)

section \<open>Which steps write a cookie or a storage record\<close>

lemma writes_append [simp]:
  "storage_writes (st\<lparr>effects := effects st @ xs\<rparr>) = storage_writes st @ filter is_storage_write xs"
  "cookie_writes (st\<lparr>effects := effects st @ xs\<rparr>) = cookie_writes st @ filter is_cookie_write xs"
  by (simp_all add: storage_writes_def cookie_writes_def)

lemma writes_other_fields [simp]:
  "storage_writes (tick_update f1 st) = storage_writes st"
  "storage_writes (ctx_sessionId_update f2 st) = storage_writes st"
  "storage_writes (ctx_session_update f3 st) = storage_writes st"
  "storage_writes (storage_update f4 st) = storage_writes st"
  "cookie_writes (tick_update f1 st) = cookie_writes st"
  "cookie_writes (ctx_sessionId_update f2 st) = cookie_writes st"
  "cookie_writes (ctx_session_update f3 st) = cookie_writes st"
  "cookie_writes (storage_update f4 st) = cookie_writes st"
  "storage_writes (request_start store) = []"
  "cookie_writes (request_start store) = []"
  by (simp_all add: storage_writes_def cookie_writes_def)

lemma writes_cong:
  "effects st' = effects st \<Longrightarrow> storage_writes st' = storage_writes st"
  "effects st' = effects st \<Longrightarrow> cookie_writes st' = cookie_writes st"
  by (simp_all add: storage_writes_def cookie_writes_def)

lemma deleteSession_writes [simp]:
  "storage_writes (deleteSession e st) = storage_writes st"
  "cookie_writes (deleteSession e st) = cookie_writes st"
  by (simp_all add: storage_writes_def cookie_writes_def deleteSession_effects split: option.split)

lemma createSession_effects [simp]:
  "effects (state_of (createSession e body st)) = effects st"
  by (simp add: createSession_def Let_def split: option.split)

lemma createSession_Some:
  "createSession e (Some body) st =
     Done (st\<lparr>tick := Suc (Suc (tick st)),
              ctx_sessionId := JStr (nanoid e (Suc (tick st)) (idLength (options e))),
              ctx_session := Some (obj_set ''createdAt'' (JDate (clock e (tick st)))
                (obj_set ''id'' (JStr (nanoid e (Suc (tick st)) (idLength (options e)))) body))\<rparr>)"
  by (simp add: createSession_def Let_def)


lemma reNewSession_Done:
  "reNewSession e st =
     Done ((deleteSession e st)\<lparr>tick := Suc (Suc (tick st)),
              ctx_sessionId := JStr (nanoid e (Suc (tick st)) (idLength (options e))),
              ctx_session := Some (obj_set ''createdAt'' (JDate (clock e (tick st)))
                (obj_set ''id'' (JStr (nanoid e (Suc (tick st)) (idLength (options e))))
                   (case ctx_session st of None \<Rightarrow> [] | Some s \<Rightarrow> s)))\<rparr>)"
  by (simp add: reNewSession_def createSession_Some)

lemma checkSessionExpirationTime_cases:
  "checkSessionExpirationTime e s d st = Done (st\<lparr>tick := tick st + 2\<rparr>) \<or>
   checkSessionExpirationTime e s d st = Threw SessionExpired (st\<lparr>tick := tick st + 2\<rparr>)"
  by (simp add: checkSessionExpirationTime_def Let_def split: option.split)

lemma getSession_cases:
  "snd (getSession e st) = st \<or>
   snd (getSession e st) = st\<lparr>tick := tick st + 2\<rparr> \<or>
   (fst (getSession e st) = None \<and>
    snd (getSession e st) = deleteSession e (st\<lparr>tick := tick st + 2\<rparr>))"
proof -
  have "\<And>s d. snd (case checkSessionExpirationTime e s d st of
                     Done st' \<Rightarrow> (Some s, st')
                   | Threw err st' \<Rightarrow> (None, deleteSession e st')) = st\<lparr>tick := tick st + 2\<rparr> \<or>
             (fst (case checkSessionExpirationTime e s d st of
                     Done st' \<Rightarrow> (Some s, st')
                   | Threw err st' \<Rightarrow> (None, deleteSession e st')) = None \<and>
              snd (case checkSessionExpirationTime e s d st of
                     Done st' \<Rightarrow> (Some s, st')
                   | Threw err st' \<Rightarrow> (None, deleteSession e st'))
                = deleteSession e (st\<lparr>tick := tick st + 2\<rparr>))"
    subgoal for s d
      using checkSessionExpirationTime_cases [of e s d st] by auto
    done
  then show ?thesis
    by (simp add: getSession_def Let_def split: option.split jsvalue.split)
qed

lemma getSession_writes [simp]:
  "storage_writes (snd (getSession e st)) = storage_writes st"
  "cookie_writes (snd (getSession e st)) = cookie_writes st"
  using getSession_cases [of e st]
  by (auto simp: storage_writes_def cookie_writes_def deleteSession_effects split: option.split)

lemma startRequest_writes [simp]:
  "storage_writes (fst (startRequest e st)) = storage_writes (snd (getSession e st))"
  "cookie_writes (fst (startRequest e st)) = cookie_writes (snd (getSession e st))"
  by (auto simp: startRequest_def storage_writes_def cookie_writes_def split: prod.split option.split)

lemma handler_step_writes:
  "storage_writes (fst (state_of (handler_step e a x))) = storage_writes (fst x)"
  "cookie_writes (fst (state_of (handler_step e a x))) = cookie_writes (fst x)"
  by (cases x; cases a; simp add: reNewSession_Done storage_writes_def cookie_writes_def deleteSession_effects split: option.split)+

lemma run_handler_writes:
  "storage_writes (fst (state_of (run_handler e ops x))) = storage_writes (fst x) \<and>
   cookie_writes (fst (state_of (run_handler e ops x))) = cookie_writes (fst x)"
proof (induction ops arbitrary: x)
  case Nil
  show ?case by simp
next
  case (Cons a ops)
  show ?case
  proof (cases "handler_step e a x")
    case (Done x')
    with Cons.IH [of x'] handler_step_writes [of e a x] show ?thesis by simp
  next
    case (Threw err x')
    with handler_step_writes [of e a x] show ?thesis by simp
  qed
qed

lemma safeSetCookie_frame [simp]:
  "storage_writes (state_of (safeSetCookie e name v c st)) = storage_writes st"
  "storage (state_of (safeSetCookie e name v c st)) = storage st"
  "ctx_session (state_of (safeSetCookie e name v c st)) = ctx_session st"
  "ctx_sessionId (state_of (safeSetCookie e name v c st)) = ctx_sessionId st"
  by (simp_all add: safeSetCookie_def Let_def storage_writes_def split: option.split jsvalue.split)

lemma createSession_frame [simp]:
  "storage_writes (state_of (createSession e body st)) = storage_writes st"
  "cookie_writes (state_of (createSession e body st)) = cookie_writes st"
  "storage (state_of (createSession e body st)) = storage st"
  by (simp_all add: createSession_def Let_def storage_writes_def cookie_writes_def split: option.split)

lemma outcome_pair_state [simp]:
  "fst (state_of (case r of Done s \<Rightarrow> Done (s, c) | Threw err s \<Rightarrow> Threw err (s, c))) = state_of r"
  "snd (state_of (case r of Done s \<Rightarrow> Done (s, c) | Threw err s \<Rightarrow> Threw err (s, c))) = c"
  by (cases r; simp)+

lemma headers_callback_storage_writes:
  "storage_writes (fst (state_of (headers_callback e x))) = storage_writes (fst x)"
proof (cases x)
  case (Pair st sc)
  show ?thesis
  proof (cases "createSession e None st")
    case (Done st1)
    then have "storage_writes st1 = storage_writes st"
      using createSession_frame(1) [of e None st] by simp
    then show ?thesis
      unfolding Pair headers_callback_def Let_def using Done
      by (simp split: option.split)
  next
    case (Threw err st1)
    then have "storage_writes st1 = storage_writes st"
      using createSession_frame(1) [of e None st] by simp
    then show ?thesis
      unfolding Pair headers_callback_def Let_def using Threw
      by (simp split: option.split)
  qed
qed


lemma finish_callback_storage_writes:
  "length (storage_writes (fst (finish_callback e x))) \<le> Suc (length (storage_writes (fst x)))"
  by (cases x) (simp add: finish_callback_def setStorageSession_def storage_writes_def split: jsvalue.split)

text \<open>
  C6.  Whatever the handler does, the request calls \<open>setStorageSession\<close> at most once,
  and not before the response is finished: up to and including the headers callback no
  storage write has happened.
\<close>

theorem at_most_one_storage_write:
  "storage_writes (fst (after_headers e ops (request_start store))) = [] \<and>
   length (storage_writes (fst (run_request e ops (request_start store)))) \<le> 1"
proof -
  have h: "storage_writes (fst (after_handler e ops (request_start store))) = []"
    using run_handler_writes [of e ops "startRequest e (request_start store)"]
    by (simp add: after_handler_def)
  have k: "storage_writes (fst (after_headers e ops (request_start store))) = []"
    using headers_callback_storage_writes [of e "after_handler e ops (request_start store)"] h
    by (simp add: after_headers_def)
  show ?thesis
    using finish_callback_storage_writes [of e "after_headers e ops (request_start store)"] k
    by (simp add: run_request_def)
qed

theorem at_most_one_storage_write_witness:
  "storage_writes (fst (after_headers example_env
       [SetKey ''a'' (JBool True), Touch, Regenerate, SetKey ''b'' JNull]
       (request_start Map.empty))) = [] \<and>
   length (storage_writes (fst (run_request example_env
       [SetKey ''a'' (JBool True), Touch, Regenerate, SetKey ''b'' JNull]
       (request_start Map.empty)))) \<le> 1"
  by (rule at_most_one_storage_write)

section \<open>Destroying a session\<close>

text \<open>
  C10.  \<open>deleteSession\<close> (the body of \<^verbatim>\<open>destroy()\<close>) drops the storage record under the
  session id of the request's cookie, whatever id the context holds at that moment; with
  no session cookie (or an empty one) it drops nothing.  In every case it clears the
  cookie and the context fields \<open>sessionId\<close> and \<open>session\<close>.
\<close>

theorem deleteSession_by_request_cookie:
  "ctx_sessionId (deleteSession e st) = JUndefined \<and>
   ctx_session (deleteSession e st) = None \<and>
   effects (deleteSession e st) =
     effects st
     @ (case cookies e (cookieName (options e)) of
          None \<Rightarrow> []
        | Some sid \<Rightarrow> if sid = [] then [] else [DropStorageSession sid])
     @ [DeleteCookie (cookieName (options e))] \<and>
   storage (deleteSession e st) =
     (case cookies e (cookieName (options e)) of
        None \<Rightarrow> storage st
      | Some sid \<Rightarrow> if sid = [] then storage st else (storage st)(storage_key e sid := None))"
  by (simp add: deleteSession_effects deleteSession_storage getCurrentSessionId_def)

theorem deleteSession_by_request_cookie_witness:
  "effects (deleteSession cookie_env ((request_start example_store)\<lparr>ctx_sessionId := JStr ''other''\<rparr>)) =
     [DropStorageSession ''abcd'', DeleteCookie ''sessionId''] \<and>
   storage (deleteSession cookie_env ((request_start example_store)\<lparr>ctx_sessionId := JStr ''other''\<rparr>))
     ''sessions:abcd'' = None \<and>
   effects (deleteSession example_env ((request_start example_store)\<lparr>ctx_sessionId := JStr ''other''\<rparr>)) =
     [DeleteCookie ''sessionId''] \<and>
   storage (deleteSession example_env ((request_start example_store)\<lparr>ctx_sessionId := JStr ''other''\<rparr>)) =
     example_store"
  using deleteSession_by_request_cookie
          [of cookie_env "(request_start example_store)\<lparr>ctx_sessionId := JStr ''other''\<rparr>"]
        deleteSession_by_request_cookie
          [of example_env "(request_start example_store)\<lparr>ctx_sessionId := JStr ''other''\<rparr>"]
  by (simp add: cookie_env_def example_env_def example_options_def storage_key_def)

section \<open>The cookie writer\<close>

lemma safeSetCookie_JDate:
  "safeSetCookie e name v (JDate createdAt) st =
     (if expires_ok e createdAt
      then Done (st\<lparr>effects := effects st
                   @ [SetCookie name v (configured_cookie e createdAt)]\<rparr>)
      else Threw TypeError st)"
  by (cases "expiryInSeconds (options e)"; cases "domain (options e)")
     (simp_all add: safeSetCookie_def Let_def configured_cookie_def expires_ok_def)

text \<open>
  C8 (as amended).  When \<open>safeSetCookie\<close> writes the session cookie for a session created
  at \<open>createdAt\<close>, the expiration is \<open>createdAt\<close> plus \<open>expiryInSeconds\<close> seconds when
  the expiry is finite and absent when it is \<^verbatim>\<open>false\<close>; Secure, HttpOnly and SameSite are
  the configured values; Domain is the configured one, and is omitted when the configured
  domain is \<^verbatim>\<open>false\<close> or the empty string.  It writes the cookie whenever that
  expiration is a valid \<^verbatim>\<open>Date\<close>, and throws, writing nothing, when it is not.
\<close>

theorem safeSetCookie_attributes:
  "safeSetCookie e name v (JDate createdAt) st =
     (if expires_ok e createdAt
      then Done (st\<lparr>effects := effects st @ [SetCookie name v
        \<lparr>c_expires = map_option (\<lambda>secs. createdAt + secs * 1000) (expiryInSeconds (options e)),
         c_secure = cookieSecure (options e),
         c_httpOnly = cookieHttpOnly (options e),
         c_sameSite = cookieSameSite (options e),
         c_domain = (if domain (options e) = Some [] then None else domain (options e))\<rparr>]\<rparr>)
      else Threw TypeError st)"
  using safeSetCookie_JDate [of e name v createdAt st] by (simp add: configured_cookie_def)

theorem safeSetCookie_attributes_witness:
  "expires_ok example_env 1000 \<and>
   safeSetCookie example_env ''sessionId'' (JStr ''abcd'') (JDate 1000) (request_start Map.empty) =
     Done ((request_start Map.empty)\<lparr>effects := [SetCookie ''sessionId'' (JStr ''abcd'')
       \<lparr>c_expires = Some 601000, c_secure = True, c_httpOnly = True, c_sameSite = Lax,
        c_domain = None\<rparr>]\<rparr>)"
proof -
  have ok: "expires_ok example_env 1000"
    by (simp add: expires_ok_def valid_time_def example_env_def example_options_def)
  show ?thesis
    using safeSetCookie_attributes
            [of example_env "''sessionId''" "JStr ''abcd''" 1000 "request_start Map.empty"] ok
    by (simp add: example_env_def example_options_def request_start_def)
qed

text \<open>
  The claim as it stands says that Domain is omitted exactly when the configured domain
  is \<^verbatim>\<open>false\<close>.  With the empty string as the domain, which is not \<^verbatim>\<open>false\<close>, the
  cookie is written without Domain.
\<close>

theorem empty_domain_counterexample:
  "domain (options (example_env\<lparr>options := example_options\<lparr>domain := Some []\<rparr>\<rparr>)) \<noteq> None \<and>
   safeSetCookie (example_env\<lparr>options := example_options\<lparr>domain := Some []\<rparr>\<rparr>)
       ''sessionId'' (JStr ''abcd'') (JDate 1000) (request_start Map.empty) =
     Done ((request_start Map.empty)\<lparr>effects := [SetCookie ''sessionId'' (JStr ''abcd'')
       \<lparr>c_expires = Some 601000, c_secure = True, c_httpOnly = True, c_sameSite = Lax,
        c_domain = None\<rparr>]\<rparr>)"
  by (simp add: safeSetCookie_def Let_def valid_time_def example_env_def example_options_def
        request_start_def)

section \<open>Resolving the session of a request\<close>

lemma getSession_stored:
  assumes "getCurrentSessionId e = Some sid" and "sid \<noteq> []"
    and "storage st (storage_key e sid) = Some (JObj session)"
    and "isSession (JObj session)"
    and "expiryInSeconds (options e) = Some D"
  shows "getSession e st =
           (case checkSessionExpirationTime e session D st of
              Done st' \<Rightarrow> (Some session, st')
            | Threw err st' \<Rightarrow> (None, deleteSession e st'))"
  using assms by (simp add: getSession_def getStorageSession_def)

lemma example_request_facts:
  "getCurrentSessionId late_env = Some ''abcd''"
  "getCurrentSessionId edge_env = Some ''abcd''"
  "storage (request_start example_store) (storage_key late_env ''abcd'')
     = Some (JObj example_session)"
  "storage (request_start example_store) (storage_key edge_env ''abcd'')
     = Some (JObj example_session)"
  "isSession (JObj example_session)"
  "expiryInSeconds (options late_env) = Some 600"
  "expiryInSeconds (options edge_env) = Some 600"
  "cookieName (options late_env) = ''sessionId''"
  by (simp_all add: getCurrentSessionId_def late_env_def edge_env_def cookie_env_def
        example_env_def example_options_def example_store_def
        storage_key_def isSession_def obj_has_def example_session_def)

lemma example_elapsed:
  "elapsed_seconds late_env (request_start example_store) example_session = Some 601"
  "elapsed_seconds edge_env (request_start example_store) example_session = Some 600"
  by (simp_all add: elapsed_seconds_def late_env_def edge_env_def cookie_env_def
        example_env_def example_session_def obj_get_def valid_time_def diff_seconds_def)

text \<open>
  C3 (as amended).  With a finite expiry \<open>D\<close>, a stored session whose elapsed whole
  seconds (now minus \<open>createdAt\<close> in ms, over 1000 and cut to an integer, as the
  \<^verbatim>\<open>diff\<close> of \<^verbatim>\<open>dayjs\<close> counts them) exceed \<open>D\<close> is not returned by \<open>getSession\<close>:
  the result is \<^verbatim>\<open>null\<close>, the storage record of that session is dropped and its
  cookie is cleared, and the handler starts from an empty session.
\<close>

theorem expired_session_is_purged:
  assumes "getCurrentSessionId e = Some sid" and "sid \<noteq> []"
    and "storage st (storage_key e sid) = Some (JObj session)"
    and "isSession (JObj session)"
    and "expiryInSeconds (options e) = Some D"
    and "elapsed_seconds e st session = Some age"
    and "age > D"
  shows "fst (getSession e st) = None \<and>
         storage (snd (getSession e st)) (storage_key e sid) = None \<and>
         effects (snd (getSession e st)) =
           effects st @ [DropStorageSession sid, DeleteCookie (cookieName (options e))] \<and>
         isInit (snd (startRequest e st)) \<and>
         ctx_session (fst (startRequest e st)) = Some [] \<and>
         ctx_sessionId (fst (startRequest e st)) = JStr []"
proof -
  have chk: "checkSessionExpirationTime e session D st
               = Threw SessionExpired (st\<lparr>tick := tick st + 2\<rparr>)"
    using assms(6,7) by (simp add: checkSessionExpirationTime_def)
  have gs: "getSession e st = (None, deleteSession e (st\<lparr>tick := tick st + 2\<rparr>))"
    using getSession_stored [OF assms(1-5)] by (simp add: chk)
  show ?thesis
    using assms(1,2) by (simp add: gs startRequest_def deleteSession_effects deleteSession_storage)
qed

theorem expired_session_is_purged_witness:
  "elapsed_seconds late_env (request_start example_store) example_session = Some 601 \<and>
   fst (getSession late_env (request_start example_store)) = None \<and>
   storage (snd (getSession late_env (request_start example_store)))
     (storage_key late_env ''abcd'') = None \<and>
   effects (snd (getSession late_env (request_start example_store))) =
     [DropStorageSession ''abcd'', DeleteCookie ''sessionId''] \<and>
   isInit (snd (startRequest late_env (request_start example_store)))"
proof -
  have gt: "(601::int) > 600" by simp
  show ?thesis
    using expired_session_is_purged
            [OF example_request_facts(1) _ example_request_facts(3) example_request_facts(5)
                example_request_facts(6) example_elapsed(1) gt]
    by (simp add: example_elapsed example_request_facts(8))
qed

text \<open>
  The claim as it stands speaks of every session whose age exceeds \<open>D\<close>.  A session
  that is 600.999 s old, under an expiry of 600 s, has 600 elapsed whole seconds: it is
  returned, and nothing is dropped or cleared.
\<close>

theorem expiry_within_the_second_counterexample:
  "clock second_env 0 - 1699999999000 > 600 * 1000 \<and>
   obj_get example_session ''createdAt'' = JDate 1699999999000 \<and>
   expiryInSeconds (options second_env) = Some 600 \<and>
   fst (getSession second_env (request_start example_store)) = Some example_session \<and>
   effects (snd (getSession second_env (request_start example_store))) = [] \<and>
   storage (snd (getSession second_env (request_start example_store))) = example_store"
  by (simp add: getSession_def getCurrentSessionId_def getStorageSession_def storage_key_def
        second_env_def cookie_env_def example_env_def example_options_def example_store_def
        isSession_def obj_has_def example_session_def checkSessionExpirationTime_def
        elapsed_seconds_def obj_get_def valid_time_def diff_seconds_def Let_def)

text \<open>
  C9.  The comparison is strict: with a finite expiry \<open>D\<close>, a stored session whose
  elapsed seconds are at most \<open>D\<close>, and so one that is exactly \<open>D\<close> seconds old, is
  returned by \<open>getSession\<close> and handed to the handler; nothing is dropped or cleared.
\<close>

theorem unexpired_session_is_returned:
  assumes "getCurrentSessionId e = Some sid" and "sid \<noteq> []"
    and "storage st (storage_key e sid) = Some (JObj session)"
    and "isSession (JObj session)"
    and "expiryInSeconds (options e) = Some D"
    and "elapsed_seconds e st session = Some age"
    and "age \<le> D"
  shows "getSession e st = (Some session, st\<lparr>tick := tick st + 2\<rparr>) \<and>
         \<not> isInit (snd (startRequest e st)) \<and>
         ctx_session (fst (startRequest e st)) = Some session \<and>
         effects (fst (startRequest e st)) = effects st \<and>
         storage (fst (startRequest e st)) = storage st"
proof -
  have chk: "checkSessionExpirationTime e session D st = Done (st\<lparr>tick := tick st + 2\<rparr>)"
    using assms(6,7) by (simp add: checkSessionExpirationTime_def)
  have gs: "getSession e st = (Some session, st\<lparr>tick := tick st + 2\<rparr>)"
    using getSession_stored [OF assms(1-5)] by (simp add: chk)
  show ?thesis
    by (simp add: gs startRequest_def)
qed

theorem unexpired_session_is_returned_witness:
  "elapsed_seconds edge_env (request_start example_store) example_session = Some 600 \<and>
   fst (getSession edge_env (request_start example_store)) = Some example_session \<and>
   effects (fst (startRequest edge_env (request_start example_store))) = [] \<and>
   storage (fst (startRequest edge_env (request_start example_store))) = example_store"
proof -
  have le: "(600::int) \<le> 600" by simp
  show ?thesis
    using unexpired_session_is_returned
            [OF example_request_facts(2) _ example_request_facts(4) example_request_facts(5)
                example_request_facts(7) example_elapsed(2) le]
    by (simp add: example_elapsed)
qed

section \<open>The two callbacks\<close>

lemma map_of_obj_replace:
  "map_of s k \<noteq> None \<Longrightarrow> map_of (obj_replace k v s) = (map_of s)(k \<mapsto> v)"
  by (induction s) (auto simp: fun_eq_iff)

lemma map_of_obj_insert_index:
  "map_of s k = None \<Longrightarrow> map_of (obj_insert_index i k v s) = (map_of s)(k \<mapsto> v)"
  by (induction s) (auto simp: fun_eq_iff split: option.split)

lemma map_of_obj_set: "map_of (obj_set k v s) = (map_of s)(k \<mapsto> v)"
proof (cases "map_of s k")
  case None
  then show ?thesis
    by (cases "array_index k")
       (auto simp: obj_set_def obj_has_def map_of_obj_insert_index fun_eq_iff map_add_def
          split: option.split)
next
  case (Some w)
  then show ?thesis
    by (simp add: obj_set_def obj_has_def map_of_obj_replace)
qed

lemma obj_get_obj_set_same [simp]: "obj_get (obj_set k v s) k = v"
  by (simp add: obj_get_def map_of_obj_set)


lemma setStorageSession_frame [simp]:
  "effects (setStorageSession e sid v st) = effects st @ [SetStorageSession sid v]"
  "ctx_session (setStorageSession e sid v st) = ctx_session st"
  "ctx_sessionId (setStorageSession e sid v st) = ctx_sessionId st"
  by (simp_all add: setStorageSession_def split: jsvalue.split)

lemma not_destroyed: "ctx_session st = Some s \<Longrightarrow> \<not> isDestory st"
  by (simp add: isDestory_def)




lemma headers_active_skip:
  assumes "ctx_session st = Some s" and "\<not> isInit sc" and "\<not> rolling (options e)"
    and "expiryInSeconds (options e) = None \<or>
         (\<not> isModified (sc\<lparr>postSessionId := ctx_sessionId st, postSessionHash := Some (hash s)\<rparr>)
          \<and> \<not> isTouch sc)"
    and "\<not> isReNew sc \<or>
         (\<not> isModified (sc\<lparr>postSessionId := ctx_sessionId st, postSessionHash := Some (hash s)\<rparr>)
          \<and> \<not> isTouch sc)"
  shows "headers_callback e (st, sc) =
           Done (st, sc\<lparr>postSessionId := ctx_sessionId st, postSessionHash := Some (hash s)\<rparr>)"
  using assms
  by (auto simp add: headers_callback_def Let_def not_destroyed)


lemma finish_skip:
  assumes "isDestory st \<or> (\<not> isModified sc \<and> \<not> isTouch sc)"
  shows "finish_callback e (st, sc) = (st, sc)"
  using assms by (auto simp add: finish_callback_def)


lemma payload_step:
  assumes "is_payload_op a" and "ctx_session st = Some s"
  shows "\<exists>s'. handler_step e a (st, sc) = Done (st\<lparr>ctx_session := Some s'\<rparr>, sc)"
  using assms by (cases a) auto

lemma payload_run:
  assumes "payload_only ops" and "ctx_session st = Some s"
  shows "\<exists>s'. run_handler e ops (st, sc) = Done (st\<lparr>ctx_session := Some s'\<rparr>, sc)"
  using assms
proof (induction ops arbitrary: st s)
  case Nil
  then have "st = st\<lparr>ctx_session := Some s\<rparr>" by simp
  then show ?case by (metis run_handler.simps(1))
next
  case (Cons a ops)
  from Cons.prems have a: "is_payload_op a" and r: "payload_only ops"
    by (simp_all add: payload_only_def)
  from payload_step [OF a Cons.prems(2)] obtain s1
    where s1: "handler_step e a (st, sc) = Done (st\<lparr>ctx_session := Some s1\<rparr>, sc)" by blast
  from Cons.IH [OF r, of "st\<lparr>ctx_session := Some s1\<rparr>" s1] obtain s2
    where "run_handler e ops (st\<lparr>ctx_session := Some s1\<rparr>, sc)
             = Done (st\<lparr>ctx_session := Some s1, ctx_session := Some s2\<rparr>, sc)" by auto
  then show ?case using s1 by auto
qed

lemma startRequest_active:
  assumes "fst (getSession e st) = Some session"
  shows "startRequest e st =
           ((snd (getSession e st))\<lparr>ctx_sessionId := obj_get session ''id'', ctx_session := Some session\<rparr>,
            \<lparr>isInit = False, isTouch = False, isReNew = False,
             preSessionId = obj_get session ''id'', preSessionHash = hash session,
             postSessionId = JUndefined, postSessionHash = None\<rparr>)"
  using assms by (cases "getSession e st") (simp add: startRequest_def)

lemma getSession_active_frame:
  assumes "fst (getSession e st) = Some session"
  shows "effects (snd (getSession e st)) = effects st \<and> storage (snd (getSession e st)) = storage st"
  using getSession_cases [of e st] assms by auto




lemma run_request_rest: "run_request e ops st = rest_of_request e ops (startRequest e st)"
  by (simp add: run_request_def after_headers_def after_handler_def rest_of_request_def)

lemma headers_destroyed: "isDestory (fst x) \<Longrightarrow> headers_callback e x = Done x"
  by (cases x) (simp add: headers_callback_def)

lemma finish_destroyed: "isDestory (fst x) \<Longrightarrow> finish_callback e x = x"
  by (cases x) (simp add: finish_callback_def)

lemma destroyed_step:
  assumes "\<not> is_revival a" and "ctx_session st = None" and "ctx_sessionId st = JUndefined"
  shows "ctx_session (fst (state_of (handler_step e a (st, sc)))) = None \<and>
         ctx_sessionId (fst (state_of (handler_step e a (st, sc)))) = JUndefined"
  using assms by (cases a) simp_all

lemma destroyed_run:
  assumes "no_revival post" and "ctx_session (fst x) = None" and "ctx_sessionId (fst x) = JUndefined"
  shows "ctx_session (fst (state_of (run_handler e post x))) = None \<and>
         ctx_sessionId (fst (state_of (run_handler e post x))) = JUndefined"
  using assms
proof (induction post arbitrary: x)
  case Nil
  then show ?case by simp
next
  case (Cons a post)
  obtain st sc where x: "x = (st, sc)" by (cases x)
  from Cons.prems have a: "\<not> is_revival a" and r: "no_revival post"
    by (simp_all add: no_revival_def)
  have d: "ctx_session (fst (state_of (handler_step e a x))) = None \<and>
           ctx_sessionId (fst (state_of (handler_step e a x))) = JUndefined"
    using destroyed_step [OF a, of st e sc] Cons.prems(2,3) by (simp add: x)
  show ?case
  proof (cases "handler_step e a x")
    case (Done x')
    with d Cons.IH [OF r, of x'] show ?thesis by simp
  next
    case (Threw err x')
    with d show ?thesis by simp
  qed
qed





lemma cookie_getSession:
  "getSession cookie_env (request_start example_store)
     = (Some example_session, (request_start example_store)\<lparr>tick := 2\<rparr>)"
  "getSession infinite_env (request_start example_store)
     = (Some example_session, request_start example_store)"
  by (simp_all add: getSession_def getCurrentSessionId_def getStorageSession_def storage_key_def
        cookie_env_def infinite_env_def example_env_def example_options_def example_store_def
        isSession_def obj_has_def example_session_def checkSessionExpirationTime_def
        elapsed_seconds_def obj_get_def valid_time_def diff_seconds_def Let_def)

section \<open>A request that changes nothing\<close>

text \<open>
  C7.  In an Active-mode request (\<open>getSession\<close> returned a session) with rolling off, a
  handler that calls no lifecycle operation and leaves the session with the fingerprint it
  had (in particular one that leaves the payload as it was) causes no cookie write and no
  storage write: the request ends with the effects and the storage it began with.  This
  holds for a finite expiry and for none.
\<close>

theorem unchanged_active_request_writes_nothing:
  assumes "fst (getSession e st) = Some session"
    and "\<not> rolling (options e)"
    and "payload_only ops"
    and "ctx_session (fst (after_handler e ops st)) = Some s'"
    and "hash s' = hash session"
  shows "effects (fst (run_request e ops st)) = effects st \<and>
         cookie_writes (fst (run_request e ops st)) = cookie_writes st \<and>
         storage_writes (fst (run_request e ops st)) = storage_writes st \<and>
         storage (fst (run_request e ops st)) = storage st"
proof -
  let ?st0 = "snd (getSession e st)"
  let ?st1 = "?st0\<lparr>ctx_sessionId := obj_get session ''id'', ctx_session := Some session\<rparr>"
  let ?sc1 = "\<lparr>isInit = False, isTouch = False, isReNew = False,
             preSessionId = obj_get session ''id'', preSessionHash = hash session,
             postSessionId = JUndefined, postSessionHash = None\<rparr>"
  let ?st2 = "?st0\<lparr>ctx_sessionId := obj_get session ''id'', ctx_session := Some s'\<rparr>"
  let ?sc2 = "\<lparr>isInit = False, isTouch = False, isReNew = False,
             preSessionId = obj_get session ''id'', preSessionHash = hash session,
             postSessionId = obj_get session ''id'', postSessionHash = Some (hash s')\<rparr>"
  have start: "startRequest e st = (?st1, ?sc1)"
    by (rule startRequest_active [OF assms(1)])
  obtain s2 where run: "run_handler e ops (?st1, ?sc1) = Done (?st1\<lparr>ctx_session := Some s2\<rparr>, ?sc1)"
    using payload_run [OF assms(3), of ?st1 session e ?sc1] by auto
  have "s2 = s'"
    using assms(4) by (simp add: after_handler_def start run)
  then have ah: "after_handler e ops st = (?st2, ?sc1)"
    by (simp add: after_handler_def start run)
  have hd: "headers_callback e (?st2, ?sc1) = Done (?st2, ?sc2)"
    using assms(2,5) headers_active_skip [of ?st2 s' ?sc1 e] by (simp add: isModified_def)
  have fs: "finish_callback e (?st2, ?sc2) = (?st2, ?sc2)"
    by (rule finish_skip) (simp add: isModified_def assms(5))
  have fin: "run_request e ops st = (?st2, ?sc2)"
    by (simp only: run_request_def after_headers_def ah hd state_of.simps fs)
  show ?thesis
    using getSession_active_frame [OF assms(1)]
    by (simp add: fin cookie_writes_def storage_writes_def)
qed

theorem unchanged_active_request_writes_nothing_witness:
  "fst (getSession cookie_env (request_start example_store)) = Some example_session \<and>
   payload_only [SetKey ''foo'' (JStr ''bar'')] \<and>
   effects (fst (run_request cookie_env [SetKey ''foo'' (JStr ''bar'')] (request_start example_store))) = [] \<and>
   storage (fst (run_request cookie_env [SetKey ''foo'' (JStr ''bar'')] (request_start example_store)))
     = example_store"
proof -
  have g: "fst (getSession cookie_env (request_start example_store)) = Some example_session"
    by (simp add: cookie_getSession)
  have r: "\<not> rolling (options cookie_env)"
    by (simp add: cookie_env_def example_env_def example_options_def)
  have p: "payload_only [SetKey ''foo'' (JStr ''bar'')]"
    by (simp add: payload_only_def)
  have a: "ctx_session (fst (after_handler cookie_env [SetKey ''foo'' (JStr ''bar'')]
             (request_start example_store))) = Some example_session"
    by (simp add: after_handler_def startRequest_def cookie_getSession example_session_def
          obj_set_def obj_has_def)
  show ?thesis
    using unchanged_active_request_writes_nothing [OF g r p a refl] g p by simp
qed

section \<open>touch\<close>




section \<open>destroy\<close>

text \<open>
  C2 (as amended).  From a call of \<^verbatim>\<open>destroy()\<close> on, as long as the handler neither
  assigns a new session object nor calls \<^verbatim>\<open>regenerate()\<close>, the context stays destroyed:
  the headers callback and the finish callback both return at once, and the request ends
  with the cookie writes and the storage writes it had when \<^verbatim>\<open>destroy()\<close> was called.
  (A payload write after \<^verbatim>\<open>destroy()\<close> throws, the session being deleted.)
\<close>

theorem destroy_ends_writes:
  assumes "no_revival post"
  shows "isDestory (fst (state_of (run_handler e (Destroy # post) (st, sc)))) \<and>
         headers_callback e (state_of (run_handler e (Destroy # post) (st, sc)))
           = Done (state_of (run_handler e (Destroy # post) (st, sc))) \<and>
         finish_callback e (state_of (run_handler e (Destroy # post) (st, sc)))
           = state_of (run_handler e (Destroy # post) (st, sc)) \<and>
         cookie_writes (fst (rest_of_request e (Destroy # post) (st, sc))) = cookie_writes st \<and>
         storage_writes (fst (rest_of_request e (Destroy # post) (st, sc))) = storage_writes st"
proof -
  let ?x = "state_of (run_handler e (Destroy # post) (st, sc))"
  have run: "?x = state_of (run_handler e post (deleteSession e st, sc))"
    by simp
  have "ctx_session (fst ?x) = None \<and> ctx_sessionId (fst ?x) = JUndefined"
    unfolding run by (rule destroyed_run [OF assms]) simp_all
  then have d: "isDestory (fst ?x)"
    by (simp add: isDestory_def)
  have w: "cookie_writes (fst ?x) = cookie_writes st" "storage_writes (fst ?x) = storage_writes st"
    using run_handler_writes [of e post "(deleteSession e st, sc)"] by (simp_all add: run)
  have r: "rest_of_request e (Destroy # post) (st, sc) = ?x"
    unfolding rest_of_request_def by (simp only: headers_destroyed [OF d] finish_destroyed [OF d] state_of.simps)
  show ?thesis
    by (simp only: r w headers_destroyed [OF d] finish_destroyed [OF d] d simp_thms)
qed

theorem destroy_ends_writes_witness:
  "no_revival [SetKey ''foo'' (JStr ''bar''), Touch] \<and>
   isDestory (fst (state_of (run_handler cookie_env
     (Destroy # [SetKey ''foo'' (JStr ''bar''), Touch])
     (startRequest cookie_env (request_start example_store))))) \<and>
   cookie_writes (fst (run_request cookie_env (Destroy # [SetKey ''foo'' (JStr ''bar''), Touch])
     (request_start example_store))) = [] \<and>
   storage_writes (fst (run_request cookie_env (Destroy # [SetKey ''foo'' (JStr ''bar''), Touch])
     (request_start example_store))) = []"
proof -
  have n: "no_revival [SetKey ''foo'' (JStr ''bar''), Touch]"
    by (simp add: no_revival_def)
  obtain st sc where start: "startRequest cookie_env (request_start example_store) = (st, sc)"
    by (cases "startRequest cookie_env (request_start example_store)")
  have w: "cookie_writes st = []" "storage_writes st = []"
    using startRequest_writes [of cookie_env "request_start example_store"] by (simp_all add: start)
  show ?thesis
    using destroy_ends_writes [OF n, of cookie_env st sc] n w
    by (simp only: run_request_rest start simp_thms)
qed

text \<open>
  The claim as it stands covers a handler that assigns a session object after
  \<^verbatim>\<open>destroy()\<close>.  The context then is no longer destroyed: in a request without a cookie,
  \<^verbatim>\<open>destroy()\<close> followed by \<^verbatim>\<open>event.context.session = {foo: 'bar'}\<close> ends with a
  cookie write and a storage write.
\<close>

theorem destroy_then_assign_counterexample:
  "effects (fst (run_request example_env [Destroy, Assign [(''foo'', JStr ''bar'')]]
     (request_start Map.empty))) =
     [DeleteCookie ''sessionId'',
      SetCookie ''sessionId'' (JStr ''nn'')
        \<lparr>c_expires = Some 1700000600000, c_secure = True, c_httpOnly = True,
         c_sameSite = Lax, c_domain = None\<rparr>,
      SetStorageSession (JStr ''nn'')
        (JObj [(''foo'', JStr ''bar''), (''id'', JStr ''nn''),
               (''createdAt'', JDate 1700000000000)])]"
  by (simp add: run_request_def after_headers_def after_handler_def startRequest_def
        getSession_def getCurrentSessionId_def deleteSession_def headers_callback_def
        finish_callback_def createSession_def safeSetCookie_def setStorageSession_def
        isDestory_def isModified_def session_value_def Let_def obj_get_def obj_set_def
        obj_has_def array_index_def digit_of_def valid_time_def
        example_env_def example_options_def example_nanoid_def request_start_def)

section \<open>regenerate\<close>




section \<open>The content fingerprint\<close>
























end
